theory Spec2Isabelle
  imports Main "HOL-Library.Sublist"
begin

section \<open>Strings as the handlers use them\<close>

text \<open>
  The backend (\<^verbatim>\<open>ui/backend/main.py\<close>) is a set of request handlers around an external
  provisioner, \<^verbatim>\<open>init.sh\<close>, which they run as a child process. The handlers are modelled
  as functions; an exception is the left side of a sum. What lies outside the
  repository is a parameter of the model: the provisioner (a function from the
  arguments and the stdin text to the outcome of the run), the JWT library (a pair of
  functions) and the clock (a time in whole seconds, as the expiry of a token is).

  The handlers work on Python \<^verbatim>\<open>str\<close> values. A string is modelled as a \<^typ>\<open>string\<close>;
  each \<^typ>\<open>char\<close> stands for one code point below 256.
\<close>

abbreviation nl :: char where
  "nl \<equiv> CHR 0x0A"

definition is_space :: "char \<Rightarrow> bool" where
  \<comment> \<open>\<^verbatim>\<open>str.isspace\<close> on one code point below 256: what \<^verbatim>\<open>strip()\<close> and \<^verbatim>\<open>split()\<close> remove.\<close>
  "is_space c \<longleftrightarrow>
     c \<in> {CHR 0x09, CHR 0x0A, CHR 0x0B, CHR 0x0C, CHR 0x0D,
          CHR 0x1C, CHR 0x1D, CHR 0x1E, CHR 0x1F, CHR 0x20, CHR 0x85, CHR 0xA0}"

definition is_digit :: "char \<Rightarrow> bool" where
  \<comment> \<open>the class \<^verbatim>\<open>\d\<close> of the \<^verbatim>\<open>re\<close> module, on code points below 256\<close>
  "is_digit c \<longleftrightarrow> c \<in> set ''0123456789''"

definition py_strip :: "string \<Rightarrow> string" where
  \<comment> \<open>\<^verbatim>\<open>s.strip()\<close>\<close>
  "py_strip s = rev (dropWhile is_space (rev (dropWhile is_space s)))"

fun split_nl :: "string \<Rightarrow> string list" where
  \<comment> \<open>\<^verbatim>\<open>s.split("\n")\<close>: one more piece than there are newlines\<close>
  "split_nl [] = [[]]"
| "split_nl (c # cs) =
     (if c = nl then [] # split_nl cs
      else (case split_nl cs of
              l # ls \<Rightarrow> (c # l) # ls
            | [] \<Rightarrow> [[c]]))"

function py_split :: "string \<Rightarrow> string list" where
  \<comment> \<open>\<^verbatim>\<open>s.split()\<close>: the maximal runs of characters that are not whitespace\<close>
  "py_split [] = []"
| "py_split (c # cs) =
     (if is_space c then py_split cs
      else takeWhile (\<lambda>x. \<not> is_space x) (c # cs)
             # py_split (dropWhile (\<lambda>x. \<not> is_space x) cs))"
  by pat_completeness auto
termination
  by (relation "measure length") (auto simp: le_imp_less_Suc length_dropWhile_le)

definition digits :: string where
  "digits = ''0123456789''"

function str_nat :: "nat \<Rightarrow> string" where
  \<comment> \<open>the decimal rendering of a number, as \<^verbatim>\<open>str(n)\<close> and \<^verbatim>\<open>f"{n}"\<close> give it\<close>
  "str_nat n = (if n < 10 then [digits ! n] else str_nat (n div 10) @ [digits ! (n mod 10)])"
  by pat_completeness auto
termination
  by (relation "measure id") auto

declare str_nat.simps [simp del]

section \<open>Exceptions, the provisioner process and the data model\<close>

text \<open>
  The exceptions that reach or leave the handlers. \<open>HTTPException\<close> carries status code,
  detail and headers (the empty list for \<^verbatim>\<open>headers=None\<close>). \<open>OSError n m\<close> is what
  \<^verbatim>\<open>subprocess\<close> raises when the executable cannot be started: \<open>n\<close> is the errno and \<open>m\<close>
  the text Python prints after it (the strerror and the quoted file name).
  \<open>ValueError\<close> is raised by unpacking a list of the wrong length.
\<close>

datatype exn =
    HTTPException (status_code: nat) (detail: string) (headers: "(string \<times> string) list")
  | OSError nat string
  | ValueError string

fun str_exn :: "exn \<Rightarrow> string" where
  \<comment> \<open>\<^verbatim>\<open>str(e)\<close>. The \<^verbatim>\<open>__str__\<close> of the framework's \<^verbatim>\<open>HTTPException\<close> returns
      \<^verbatim>\<open>f"{self.status_code}: {self.detail}"\<close>; Python renders an \<^verbatim>\<open>OSError\<close> with an errno
      as \<^verbatim>\<open>[Errno n] ...\<close> and a \<^verbatim>\<open>ValueError\<close> as its message.\<close>
  "str_exn (HTTPException s d h) = str_nat s @ '': '' @ d"
| "str_exn (OSError n m) = ''[Errno '' @ str_nat n @ ''] '' @ m"
| "str_exn (ValueError m) = m"

definition HTTP_500_INTERNAL_SERVER_ERROR :: nat where
  "HTTP_500_INTERNAL_SERVER_ERROR = 500"

definition HTTP_401_UNAUTHORIZED :: nat where
  "HTTP_401_UNAUTHORIZED = 401"

text \<open>
  What running the provisioner gives: it cannot be started (errno and text of the
  \<^verbatim>\<open>OSError\<close>), or it exits with a return code, its captured stdout and its captured stderr.
\<close>

datatype proc_outcome =
    StartFailure nat string
  | Exited int string string

text \<open>
  The world outside the handlers: the path of \<^verbatim>\<open>init.sh\<close> and the behaviour of the
  provisioner, from the argument vector and the text written to its stdin (\<open>None\<close> when
  nothing is written) to the outcome.
\<close>

record env =
  INIT_SCRIPT :: string
  subprocess :: "string list \<Rightarrow> string option \<Rightarrow> proc_outcome"

record stack =
  phoenixd_domain :: string
  lnbits_domain :: string
  use_real_certs :: bool
  use_postgres :: bool
  email :: "string option"

text \<open>The dictionary a handler returns for one stack (\<^verbatim>\<open>StackResponse\<close>).\<close>

record stack_response =
  resp_id :: string
  resp_phoenixd_domain :: string
  resp_lnbits_domain :: string

section \<open>Creating a stack\<close>

fun format_opt :: "string option \<Rightarrow> string" where
  \<comment> \<open>an \<^verbatim>\<open>Optional[str]\<close> inside an f-string\<close>
  "format_opt None = ''None''"
| "format_opt (Some s) = s"

definition answers :: "stack \<Rightarrow> string" where
  \<comment> \<open>the f-string of lines 168 to 174\<close>
  "answers stack =
     phoenixd_domain stack @ [nl]
     @ lnbits_domain stack @ [nl]
     @ (if use_real_certs stack then ''y'' else ''n'') @ [nl]
     @ (if use_real_certs stack then format_opt (email stack) else '''') @ [nl]
     @ (if use_postgres stack then ''y'' else ''n'') @ [nl]
     @ ''y'' @ [nl]"

definition stdin_lines :: "string \<Rightarrow> string list" where
  \<comment> \<open>the lines a reader of stdin sees: the pieces between newlines, without the empty
      piece after a final newline\<close>
  "stdin_lines s = (let ls = split_nl s in if last ls = [] then butlast ls else ls)"

fun re_search_stack :: "string \<Rightarrow> string option" where
  \<comment> \<open>\<^verbatim>\<open>re.search(r"stack_(\d+)", s)\<close>, group 1: the first position where the pattern
      matches, and there the longest run of digits\<close>
  "re_search_stack [] = None"
| "re_search_stack (c # cs) =
     (if prefix ''stack_'' (c # cs) \<and> takeWhile is_digit (drop 6 (c # cs)) \<noteq> []
      then Some (takeWhile is_digit (drop 6 (c # cs)))
      else re_search_stack cs)"

definition add_stack_body :: "env \<Rightarrow> stack \<Rightarrow> exn + stack_response" where
  \<comment> \<open>the \<^verbatim>\<open>try\<close> block of \<^verbatim>\<open>add_stack\<close>\<close>
  "add_stack_body e stack =
     (case subprocess e [INIT_SCRIPT e, ''add''] (Some (answers stack)) of
        StartFailure n m \<Rightarrow> Inl (OSError n m)
      | Exited returncode stdout stderr \<Rightarrow>
          if returncode \<noteq> 0
          then Inl (HTTPException HTTP_500_INTERNAL_SERVER_ERROR
                      (''Failed to add stack: '' @ stderr) [])
          else (case re_search_stack stdout of
                  None \<Rightarrow> Inl (HTTPException HTTP_500_INTERNAL_SERVER_ERROR
                                  ''Failed to extract stack ID from output'' [])
                | Some stack_id \<Rightarrow>
                    Inr \<lparr>resp_id = stack_id,
                         resp_phoenixd_domain = phoenixd_domain stack,
                         resp_lnbits_domain = lnbits_domain stack\<rparr>))"

definition add_stack :: "env \<Rightarrow> stack \<Rightarrow> exn + stack_response" where
  \<comment> \<open>\<^verbatim>\<open>except Exception as e\<close>: whatever the block raises is raised anew\<close>
  "add_stack e stack =
     (case add_stack_body e stack of
        Inl ex \<Rightarrow> Inl (HTTPException HTTP_500_INTERNAL_SERVER_ERROR (str_exn ex) [])
      | Inr r \<Rightarrow> Inr r)"

section \<open>Removing a stack\<close>

definition remove_stack_body :: "env \<Rightarrow> string \<Rightarrow> exn + string" where
  \<comment> \<open>the \<^verbatim>\<open>try\<close> block of \<^verbatim>\<open>remove_stack\<close>; the result is the message of the response\<close>
  "remove_stack_body e stack_id =
     (case subprocess e [INIT_SCRIPT e, ''del''] (Some (stack_id @ [nl] @ ''y'' @ [nl])) of
        StartFailure n m \<Rightarrow> Inl (OSError n m)
      | Exited returncode stdout stderr \<Rightarrow>
          if returncode \<noteq> 0
          then Inl (HTTPException HTTP_500_INTERNAL_SERVER_ERROR
                      (''Failed to remove stack: '' @ stderr) [])
          else Inr (''Stack '' @ stack_id @ '' removed successfully''))"

definition remove_stack :: "env \<Rightarrow> string \<Rightarrow> exn + string" where
  "remove_stack e stack_id =
     (case remove_stack_body e stack_id of
        Inl ex \<Rightarrow> Inl (HTTPException HTTP_500_INTERNAL_SERVER_ERROR (str_exn ex) [])
      | Inr r \<Rightarrow> Inr r)"

section \<open>Listing the stacks\<close>

definition unpack_message :: "nat \<Rightarrow> string" where
  \<comment> \<open>the message of the \<^verbatim>\<open>ValueError\<close> of unpacking \<open>n\<close> values into three names\<close>
  "unpack_message n =
     (if n < 3 then ''not enough values to unpack (expected 3, got '' @ str_nat n @ '')''
      else ''too many values to unpack (expected 3)'')"

fun stacks_loop :: "stack_response list \<Rightarrow> string list \<Rightarrow> exn + stack_response list" where
  \<comment> \<open>the \<^verbatim>\<open>for\<close> loop of \<^verbatim>\<open>get_stacks\<close>; the first argument is the list \<^verbatim>\<open>stacks\<close> built so far\<close>
  "stacks_loop stacks [] = Inr stacks"
| "stacks_loop stacks (line # rest) =
     (if line \<noteq> []
      then (let ts = py_split line
            in if length ts = 3
               then stacks_loop
                      (stacks @ [\<lparr>resp_id = ts ! 0,
                                  resp_phoenixd_domain = ts ! 1,
                                  resp_lnbits_domain = ts ! 2\<rparr>]) rest
               else Inl (ValueError (unpack_message (length ts))))
      else stacks_loop stacks rest)"

definition get_stacks :: "env \<Rightarrow> exn + stack_response list" where
  \<comment> \<open>\<^verbatim>\<open>check=True\<close> raises \<^verbatim>\<open>CalledProcessError\<close> on a return code other than 0, which the
      handler turns into the \<^verbatim>\<open>HTTPException\<close>; nothing else is caught\<close>
  "get_stacks e =
     (case subprocess e [INIT_SCRIPT e, ''list''] None of
        StartFailure n m \<Rightarrow> Inl (OSError n m)
      | Exited returncode stdout stderr \<Rightarrow>
          if returncode \<noteq> 0
          then Inl (HTTPException HTTP_500_INTERNAL_SERVER_ERROR
                      (''Failed to list stacks: '' @ stderr) [])
          else stacks_loop [] (split_nl (py_strip stdout)))"

text \<open>
  Two notions to speak about a listing. A listing is well formed when each of its lines
  (the pieces between newlines) is empty or holds exactly three tokens. Its token lines
  are the token lists of the lines that hold a token, in order.
\<close>

definition well_formed_listing :: "string \<Rightarrow> bool" where
  "well_formed_listing out \<longleftrightarrow> (\<forall>l\<in>set (split_nl out). l = [] \<or> length (py_split l) = 3)"

definition token_lines :: "string \<Rightarrow> string list list" where
  "token_lines out = filter (\<lambda>ts. ts \<noteq> []) (map py_split (split_nl out))"

section \<open>Authentication\<close>

record user_in_db =
  username :: string
  password :: string

definition USERS_DB :: "string \<rightharpoonup> user_in_db" where
  "USERS_DB = [''admin'' \<mapsto> \<lparr>username = ''admin'', password = ''adminpassword''\<rparr>]"

definition ALGORITHM :: string where
  "ALGORITHM = ''HS256''"

definition ACCESS_TOKEN_EXPIRE_MINUTES :: int where
  "ACCESS_TOKEN_EXPIRE_MINUTES = 30"

definition verify_password :: "string \<Rightarrow> string \<Rightarrow> bool" where
  "verify_password plain_password uname =
     (case USERS_DB uname of
        None \<Rightarrow> False
      | Some user \<Rightarrow> plain_password = password user)"

definition get_user :: "string \<Rightarrow> user_in_db option" where
  "get_user uname = USERS_DB uname"

definition authenticate_user :: "string \<Rightarrow> string \<Rightarrow> user_in_db option" where
  "authenticate_user uname pw =
     (case get_user uname of
        None \<Rightarrow> None
      | Some user \<Rightarrow> if \<not> verify_password pw uname then None else Some user)"

text \<open>
  The payload of a token: the subject (a string, when the payload has one) and the
  expiry, a time in whole seconds. The JWT library is outside the repository: a token
  is a value of any type \<open>'tok\<close>, and the library is the pair of functions of \<open>jwt_lib\<close>,
  called with the key and the algorithm as the source passes them; decoding also reads
  the clock, its last argument. \<open>SECRET_KEY\<close>, which the source reads from the
  environment when it starts, is kept in the same record.
\<close>

record claims =
  sub :: "string option"
  exp :: "int option"

datatype jwt_error = DecodeError | InvalidSignatureError | ExpiredSignatureError

record 'tok jwt_lib =
  SECRET_KEY :: string
  jwt_encode :: "claims \<Rightarrow> string \<Rightarrow> string \<Rightarrow> 'tok"
  jwt_decode :: "'tok \<Rightarrow> string \<Rightarrow> string list \<Rightarrow> int \<Rightarrow> jwt_error + claims"

definition create_access_token :: "'tok jwt_lib \<Rightarrow> int \<Rightarrow> claims \<Rightarrow> int option \<Rightarrow> 'tok" where
  \<comment> \<open>\<open>now\<close> is \<^verbatim>\<open>datetime.utcnow()\<close>, \<open>expires_delta\<close> a number of seconds; a delta of zero
      is false in Python, as \<^verbatim>\<open>None\<close> is\<close>
  "create_access_token lib now data expires_delta =
     (let expire = (case expires_delta of
                      Some d \<Rightarrow> if d \<noteq> 0 then now + d else now + 15 * 60
                    | None \<Rightarrow> now + 15 * 60);
          to_encode = data\<lparr>exp := Some expire\<rparr>
      in jwt_encode lib to_encode (SECRET_KEY lib) ALGORITHM)"

definition credentials_exception :: exn where
  "credentials_exception =
     HTTPException HTTP_401_UNAUTHORIZED ''Could not validate credentials''
       [(''WWW-Authenticate'', ''Bearer'')]"

definition get_current_user :: "'tok jwt_lib \<Rightarrow> int \<Rightarrow> 'tok \<Rightarrow> exn + user_in_db" where
  "get_current_user lib now token =
     (case jwt_decode lib token (SECRET_KEY lib) [ALGORITHM] now of
        Inl err \<Rightarrow> Inl credentials_exception
      | Inr payload \<Rightarrow>
          (case sub payload of
             None \<Rightarrow> Inl credentials_exception
           | Some uname \<Rightarrow>
               (case get_user uname of
                  None \<Rightarrow> Inl credentials_exception
                | Some user \<Rightarrow> Inr user)))"

record 'tok token =
  access_token :: 'tok
  token_type :: string

definition login_for_access_token ::
  "'tok jwt_lib \<Rightarrow> int \<Rightarrow> string \<Rightarrow> string \<Rightarrow> exn + 'tok token" where
  "login_for_access_token lib now uname pw =
     (case authenticate_user uname pw of
        None \<Rightarrow>
          Inl (HTTPException HTTP_401_UNAUTHORIZED ''Incorrect username or password''
                 [(''WWW-Authenticate'', ''Bearer'')])
      | Some user \<Rightarrow>
          (let access_token_expires = ACCESS_TOKEN_EXPIRE_MINUTES * 60;
               tok = create_access_token lib now \<lparr>sub = Some (username user), exp = None\<rparr>
                       (Some access_token_expires)
           in Inr \<lparr>access_token = tok, token_type = ''bearer''\<rparr>))"

text \<open>
  What the handlers need of the library: a token encoded with the key and the algorithm
  decodes, with the same key and algorithm, to its claims while the clock is before the
  expiry, and is refused once the clock is past it.
\<close>

definition jwt_contract :: "'tok jwt_lib \<Rightarrow> bool" where
  "jwt_contract lib \<longleftrightarrow>
     (\<forall>c t now. exp c = Some t \<longrightarrow>
        (now < t \<longrightarrow>
           jwt_decode lib (jwt_encode lib c (SECRET_KEY lib) ALGORITHM)
             (SECRET_KEY lib) [ALGORITHM] now = Inr c)
      \<and> (t < now \<longrightarrow>
           (\<exists>err. jwt_decode lib (jwt_encode lib c (SECRET_KEY lib) ALGORITHM)
                    (SECRET_KEY lib) [ALGORITHM] now = Inl err)))"

text \<open>
  An idealised library, to show that the contract can be met: a token is either garbage
  or the claims together with the key that signed them.
\<close>

datatype model_token = Garbage | Signed claims string

definition model_jwt :: "string \<Rightarrow> model_token jwt_lib" where
  "model_jwt key =
     \<lparr>SECRET_KEY = key,
      jwt_encode = (\<lambda>c k alg. Signed c k),
      jwt_decode = (\<lambda>tok k algs now.
        case tok of
          Garbage \<Rightarrow> Inl DecodeError
        | Signed c k' \<Rightarrow>
            if k' \<noteq> k then Inl InvalidSignatureError
            else (case exp c of
                    Some t \<Rightarrow> if t \<le> now then Inl ExpiredSignatureError else Inr c
                  | None \<Rightarrow> Inr c))\<rparr>"

section \<open>Where a stack token stands in the output\<close>

definition token_at :: "string \<Rightarrow> nat \<Rightarrow> bool" where
  \<comment> \<open>at position \<open>i\<close> of \<open>s\<close> the text \<^verbatim>\<open>stack_\<close> stands, followed by a digit\<close>
  "token_at s i \<longleftrightarrow>
     take 6 (drop i s) = ''stack_'' \<and> i + 6 < length s \<and> is_digit (s ! (i + 6))"

section \<open>Facts about lines and rendering\<close>

lemma split_nl_not_Nil: "split_nl s \<noteq> []"
  by (induction s) (auto split: list.splits)

lemma split_nl_line: "nl \<notin> set a \<Longrightarrow> split_nl (a @ nl # rest) = a # split_nl rest"
  by (induction a) auto

lemma split_nl_no_nl: "nl \<notin> set a \<Longrightarrow> split_nl a = [a]"
  by (induction a) auto

lemma str_nat_500: "str_nat 500 = ''500''"
  by (simp add: str_nat.simps digits_def)

lemma str_exn_http_neq: "str_exn (HTTPException s d h) \<noteq> d"
proof
  assume "str_exn (HTTPException s d h) = d"
  then have "length (str_nat s @ '': '' @ d) = length d" by simp
  then show False by simp
qed

lemma stdin_lines_answers:
  assumes "nl \<notin> set (phoenixd_domain s)" and "nl \<notin> set (lnbits_domain s)"
    and "use_real_certs s \<longrightarrow> nl \<notin> set (format_opt (email s))"
  shows "stdin_lines (answers s) =
           [phoenixd_domain s, lnbits_domain s,
            if use_real_certs s then ''y'' else ''n'',
            if use_real_certs s then format_opt (email s) else [],
            if use_postgres s then ''y'' else ''n'',
            ''y'']"
  using assms by (simp add: stdin_lines_def answers_def split_nl_line)

section \<open>Facts about the search for the stack token\<close>

lemma takeWhile_not_Nil: "takeWhile P xs \<noteq> [] \<longleftrightarrow> 0 < length xs \<and> P (xs ! 0)"
  by (cases xs) auto

lemma prefix_take: "prefix p xs \<longleftrightarrow> take (length p) xs = p"
  by (metis append_eq_conv_conj prefix_def append_take_drop_id)

lemma prefix_stack: "prefix ''stack_'' xs \<longleftrightarrow> take 6 xs = ''stack_''"
  using prefix_take [of "''stack_''" xs] by (simp add: numeral_eq_Suc)

lemma token_at_0:
  "token_at xs 0 \<longleftrightarrow> prefix ''stack_'' xs \<and> takeWhile is_digit (drop 6 xs) \<noteq> []"
  unfolding prefix_stack by (auto simp: token_at_def takeWhile_not_Nil)

lemma token_at_Suc: "token_at (c # cs) (Suc i) \<longleftrightarrow> token_at cs i"
  by (simp add: token_at_def add.commute)

lemma token_at_Nil: "\<not> token_at [] i"
  by (simp add: token_at_def)

lemma re_search_stack_None: "re_search_stack s = None \<longleftrightarrow> (\<forall>i. \<not> token_at s i)"
proof (induction s)
  case Nil
  then show ?case by (simp add: token_at_Nil)
next
  case (Cons c cs)
  show ?case
  proof (cases "token_at (c # cs) 0")
    case True
    then show ?thesis using token_at_0 [of "c # cs"] by auto
  next
    case False
    then have "re_search_stack (c # cs) = re_search_stack cs"
      using token_at_0 [of "c # cs"] by auto
    moreover have "(\<forall>i. \<not> token_at (c # cs) i) \<longleftrightarrow> (\<forall>i. \<not> token_at cs i)"
      using False by (metis token_at_Suc not0_implies_Suc)
    ultimately show ?thesis using Cons.IH by simp
  qed
qed

lemma re_search_stack_first:
  "token_at s i \<Longrightarrow> (\<forall>j<i. \<not> token_at s j) \<Longrightarrow>
     re_search_stack s = Some (takeWhile is_digit (drop (i + 6) s))"
proof (induction s arbitrary: i)
  case Nil
  then show ?case by (simp add: token_at_Nil)
next
  case (Cons c cs)
  show ?case
  proof (cases i)
    case 0
    then show ?thesis using Cons.prems(1) token_at_0 [of "c # cs"] by simp
  next
    case (Suc k)
    then have "\<not> token_at (c # cs) 0" using Cons.prems(2) by simp
    then have "re_search_stack (c # cs) = re_search_stack cs"
      using token_at_0 [of "c # cs"] by auto
    moreover have "token_at cs k" using Cons.prems(1) Suc by (simp add: token_at_Suc)
    moreover have "\<forall>j<k. \<not> token_at cs j"
      using Cons.prems(2) Suc token_at_Suc by (metis Suc_less_eq)
    ultimately have "re_search_stack (c # cs) = Some (takeWhile is_digit (drop (k + 6) cs))"
      using Cons.IH [of k] by (simp only:)
    moreover have "drop (i + 6) (c # cs) = drop (k + 6) cs"
    proof -
      have "i + 6 = Suc (k + 6)" using Suc by arith
      then show ?thesis by (simp only: drop_Suc_Cons)
    qed
    ultimately show ?thesis by (simp only:)
  qed
qed

lemma token_at_decomp:
  assumes "ds \<noteq> []" and "is_digit (hd ds)"
  shows "token_at (pre @ ''stack_'' @ ds @ post) (length pre)"
  using assms by (cases ds) (simp_all add: token_at_def nth_append)

lemma takeWhile_digits:
  assumes "\<forall>c\<in>set ds. is_digit c" and "post = [] \<or> \<not> is_digit (hd post)"
  shows "takeWhile is_digit (ds @ post) = ds"
  using assms by (cases post) (auto simp: takeWhile_append)

section \<open>Facts about listings\<close>

lemma py_split_all_space: "\<forall>c\<in>set w. is_space c \<Longrightarrow> py_split w = []"
  by (induction w) auto

lemma py_split_snoc_space:
  assumes "is_space c"
  shows "py_split (l @ [c]) = py_split l"
proof (induction l rule: py_split.induct)
  case 1
  then show ?case using assms by simp
next
  case (2 c0 cs)
  show ?case
  proof (cases "is_space c0")
    case True
    then show ?thesis using 2 by simp
  next
    case False
    show ?thesis
    proof (cases "\<forall>x\<in>set cs. \<not> is_space x")
      case True
      have tw: "takeWhile (\<lambda>x. \<not> is_space x) cs = cs"
        using True by (simp add: takeWhile_eq_all_conv)
      have dw: "dropWhile (\<lambda>x. \<not> is_space x) cs = []"
        using True by (simp add: dropWhile_eq_Nil_conv)
      show ?thesis using True False assms by (simp add: takeWhile_append dropWhile_append tw dw)
    next
      case nall: False
      then show ?thesis
        using False assms 2(2) [OF False] by (auto simp: takeWhile_append dropWhile_append)
    qed
  qed
qed

lemma split_nl_snoc:
  "split_nl (s @ [c]) =
     (if c = nl then split_nl s @ [[]] else butlast (split_nl s) @ [last (split_nl s) @ [c]])"
  using split_nl_not_Nil
  by (induction s) (auto split: list.splits)

lemma split_nl_append_nl: "split_nl (x @ nl # y) = split_nl x @ split_nl y"
  using split_nl_not_Nil
  by (induction x) (auto split: list.splits)

lemma well_formed_Cons: "is_space c \<Longrightarrow> well_formed_listing (c # s) \<Longrightarrow> well_formed_listing s"
  by (cases "split_nl s") (auto simp: well_formed_listing_def split_nl_not_Nil split: if_splits)

lemma token_lines_Cons: "is_space c \<Longrightarrow> token_lines (c # s) = token_lines s"
  by (cases "split_nl s") (auto simp: token_lines_def split_nl_not_Nil)

lemma well_formed_snoc: "is_space c \<Longrightarrow> well_formed_listing (s @ [c]) \<Longrightarrow> well_formed_listing s"
  unfolding well_formed_listing_def split_nl_snoc
  using split_nl_not_Nil [of s]
  by (cases "split_nl s" rule: rev_cases) (auto simp: py_split_snoc_space split: if_splits)

lemma token_lines_snoc: "is_space c \<Longrightarrow> token_lines (s @ [c]) = token_lines s"
  unfolding token_lines_def split_nl_snoc
  using split_nl_not_Nil [of s]
  by (cases "split_nl s" rule: rev_cases) (auto simp: py_split_snoc_space)


lemma well_formed_lstrip: "well_formed_listing s \<Longrightarrow> well_formed_listing (dropWhile is_space s)"
proof (induction s)
  case Nil
  then show ?case by simp
next
  case (Cons c s)
  then show ?case using well_formed_Cons [of c s] by simp
qed

lemma token_lines_lstrip: "token_lines (dropWhile is_space s) = token_lines s"
  by (induction s) (simp_all add: token_lines_Cons)

lemma well_formed_rstrip:
  "well_formed_listing s \<Longrightarrow> well_formed_listing (rev (dropWhile is_space (rev s)))"
proof (induction s rule: rev_induct)
  case Nil
  then show ?case by simp
next
  case (snoc c s)
  then show ?case using well_formed_snoc [of c s] by simp
qed

lemma token_lines_rstrip: "token_lines (rev (dropWhile is_space (rev s))) = token_lines s"
  by (induction s rule: rev_induct) (simp_all add: token_lines_snoc)

lemma well_formed_strip: "well_formed_listing s \<Longrightarrow> well_formed_listing (py_strip s)"
  unfolding py_strip_def by (intro well_formed_rstrip well_formed_lstrip)

lemma token_lines_strip: "token_lines (py_strip s) = token_lines s"
  unfolding py_strip_def by (simp add: token_lines_rstrip token_lines_lstrip)

lemma stacks_loop_well_formed:
  "\<forall>l\<in>set ls. l = [] \<or> length (py_split l) = 3 \<Longrightarrow>
   stacks_loop acc ls =
     Inr (acc @ map (\<lambda>ts. \<lparr>resp_id = ts ! 0, resp_phoenixd_domain = ts ! 1,
                           resp_lnbits_domain = ts ! 2\<rparr>)
                  (filter (\<lambda>ts. ts \<noteq> []) (map py_split ls)))"
proof (induction ls arbitrary: acc)
  case Nil
  then show ?case by simp
next
  case (Cons l ls)
  show ?case
  proof (cases "l = []")
    case True
    then show ?thesis using Cons by simp
  next
    case False
    then have "length (py_split l) = 3" using Cons.prems by simp
    moreover from this have "py_split l \<noteq> []" by auto
    ultimately show ?thesis using False Cons by (simp add: Let_def)
  qed
qed

lemma stacks_loop_malformed:
  "\<exists>l\<in>set ls. l \<noteq> [] \<and> length (py_split l) \<noteq> 3 \<Longrightarrow>
   \<exists>n. n \<noteq> 3 \<and> stacks_loop acc ls = Inl (ValueError (unpack_message n))"
proof (induction ls arbitrary: acc)
  case Nil
  then show ?case by simp
next
  case (Cons l ls)
  show ?case
  proof (cases "l \<noteq> [] \<and> length (py_split l) \<noteq> 3")
    case True
    then show ?thesis by (auto simp: Let_def)
  next
    case False
    then have "\<exists>l\<in>set ls. l \<noteq> [] \<and> length (py_split l) \<noteq> 3" using Cons.prems by auto
    then show ?thesis using False Cons.IH by (auto simp: Let_def)
  qed
qed

lemma well_formed_filter:
  assumes "well_formed_listing out"
  shows "token_lines out = map py_split (filter (\<lambda>l. l \<noteq> []) (split_nl out))"
proof -
  have "\<forall>l\<in>set (split_nl out). (py_split l \<noteq> []) = (l \<noteq> [])"
    using assms by (auto simp: well_formed_listing_def)
  then have "filter (\<lambda>l. py_split l \<noteq> []) (split_nl out) = filter (\<lambda>l. l \<noteq> []) (split_nl out)"
    by (intro filter_cong) auto
  then show ?thesis by (simp add: token_lines_def filter_map comp_def)
qed

lemma py_strip_middle:
  assumes "\<exists>c\<in>set a. \<not> is_space c" and "\<exists>c\<in>set b. \<not> is_space c"
  shows "py_strip (a @ m @ b) = dropWhile is_space a @ m @ rev (dropWhile is_space (rev b))"
proof -
  have "dropWhile is_space (a @ m @ b) = dropWhile is_space a @ m @ b"
    using assms(1) by (auto simp: dropWhile_append1)
  moreover have "dropWhile is_space (rev b @ rev m @ rev (dropWhile is_space a))
      = dropWhile is_space (rev b) @ rev m @ rev (dropWhile is_space a)"
    using assms(2) by (auto simp: dropWhile_append1)
  ultimately show ?thesis by (simp add: py_strip_def)
qed

lemma py_strip_pad:
  assumes "\<forall>c\<in>set a. is_space c" and "\<forall>c\<in>set b. is_space c"
  shows "py_strip (a @ m @ b) = py_strip m"
proof -
  have left: "dropWhile is_space (a @ m @ b) = dropWhile is_space (m @ b)"
    using assms(1) by (simp add: dropWhile_append2)
  have revb: "\<forall>c\<in>set (rev b). is_space c" using assms(2) by simp
  show ?thesis
  proof (cases "\<forall>c\<in>set m. is_space c")
    case True
    have mb: "dropWhile is_space (m @ b) = []"
      using True assms(2) by (simp add: dropWhile_eq_Nil_conv ball_Un)
    have m0: "dropWhile is_space m = []"
      using True by (simp add: dropWhile_eq_Nil_conv)
    show ?thesis by (simp add: py_strip_def left mb m0)
  next
    case False
    then have "dropWhile is_space (m @ b) = dropWhile is_space m @ b"
      by (auto simp: dropWhile_append1)
    moreover have "dropWhile is_space (rev b @ rev (dropWhile is_space m))
        = dropWhile is_space (rev (dropWhile is_space m))"
      using revb by (simp add: dropWhile_append2 del: set_rev)
    ultimately show ?thesis using left by (simp add: py_strip_def)
  qed
qed

lemma stacks_loop_strip_well_formed:
  assumes "well_formed_listing m"
  shows "stacks_loop [] (split_nl (py_strip m)) =
           Inr (map (\<lambda>l. \<lparr>resp_id = py_split l ! 0, resp_phoenixd_domain = py_split l ! 1,
                           resp_lnbits_domain = py_split l ! 2\<rparr>)
                  (filter (\<lambda>l. l \<noteq> []) (split_nl m)))"
proof -
  have "well_formed_listing (py_strip m)" using assms by (rule well_formed_strip)
  then have "stacks_loop [] (split_nl (py_strip m)) =
     Inr (map (\<lambda>ts. \<lparr>resp_id = ts ! 0, resp_phoenixd_domain = ts ! 1,
                           resp_lnbits_domain = ts ! 2\<rparr>) (token_lines (py_strip m)))"
    using stacks_loop_well_formed [of "split_nl (py_strip m)" "[]"]
    by (simp add: well_formed_listing_def token_lines_def)
  also have "token_lines (py_strip m) = map py_split (filter (\<lambda>l. l \<noteq> []) (split_nl m))"
    using well_formed_filter [OF assms] by (simp add: token_lines_strip)
  finally show ?thesis by (simp add: comp_def)
qed

section \<open>Facts about the handlers\<close>

lemma add_stack_body_cases:
  "add_stack_body e s = Inl ex \<Longrightarrow>
     (\<exists>n m. ex = OSError n m) \<or> (\<exists>d. ex = HTTPException HTTP_500_INTERNAL_SERVER_ERROR d [])"
  by (auto simp: add_stack_body_def split: proc_outcome.splits if_splits option.splits)

lemma remove_stack_body_cases:
  "remove_stack_body e i = Inl ex \<Longrightarrow>
     (\<exists>n m. ex = OSError n m) \<or> (\<exists>d. ex = HTTPException HTTP_500_INTERNAL_SERVER_ERROR d [])"
  by (auto simp: remove_stack_body_def split: proc_outcome.splits if_splits)

lemma authenticate_user_get_user:
  "authenticate_user uname pw = Some user \<Longrightarrow> get_user (username user) = Some user"
  by (auto simp: authenticate_user_def get_user_def USERS_DB_def split: option.splits if_splits)

lemma model_jwt_contract: "jwt_contract (model_jwt key)"
  by (simp add: jwt_contract_def model_jwt_def)

section \<open>The claims\<close>

text \<open>
  Claim C1. When the provisioner run by \<open>add_stack\<close> exits with code 0 and its stdout
  holds a match of \<^verbatim>\<open>stack_<digits>\<close>, the handler returns a record whose id is the run of
  digits of that match (of the first match, taken as long as it goes: here the output
  is \<open>pre\<close>, then \<^verbatim>\<open>stack_\<close>, then the digits \<open>ds\<close>, then \<open>post\<close>, which does not go on with
  a digit, and no match starts inside \<open>pre\<close>), together with the two domains of the
  request. When stdout holds no match, the handler fails, although the exit code is 0,
  with the internal error made of the failure to extract the id.
\<close>

theorem add_stack_extracts_id:
  assumes "subprocess e [INIT_SCRIPT e, ''add''] (Some (answers stack)) = Exited 0 out err"
  shows "(out = pre @ ''stack_'' @ ds @ post \<and> ds \<noteq> [] \<and> (\<forall>c\<in>set ds. is_digit c)
            \<and> (post = [] \<or> \<not> is_digit (hd post)) \<and> (\<forall>j<length pre. \<not> token_at out j) \<longrightarrow>
          add_stack e stack = Inr \<lparr>resp_id = ds, resp_phoenixd_domain = phoenixd_domain stack,
                                   resp_lnbits_domain = lnbits_domain stack\<rparr>)
       \<and> ((\<forall>i<length out. \<not> token_at out i) \<longrightarrow>
          add_stack e stack
            = Inl (HTTPException 500 ''500: Failed to extract stack ID from output'' []))"
proof (intro conjI impI)
  assume h: "out = pre @ ''stack_'' @ ds @ post \<and> ds \<noteq> [] \<and> (\<forall>c\<in>set ds. is_digit c)
            \<and> (post = [] \<or> \<not> is_digit (hd post)) \<and> (\<forall>j<length pre. \<not> token_at out j)"
  then have "token_at out (length pre)" using token_at_decomp [of ds pre post] by simp
  then have "re_search_stack out = Some (takeWhile is_digit (drop (length pre + 6) out))"
    using h re_search_stack_first by blast
  moreover have "drop (length pre + 6) out = ds @ post" using h by simp
  moreover have "takeWhile is_digit (ds @ post) = ds" using h takeWhile_digits by blast
  ultimately have "re_search_stack out = Some ds" by (simp only:)
  then show "add_stack e stack = Inr \<lparr>resp_id = ds, resp_phoenixd_domain = phoenixd_domain stack,
                                   resp_lnbits_domain = lnbits_domain stack\<rparr>"
    using assms by (simp add: add_stack_def add_stack_body_def)
next
  assume "\<forall>i<length out. \<not> token_at out i"
  then have "\<forall>i. \<not> token_at out i" by (auto simp: token_at_def)
  then have "re_search_stack out = None" by (simp add: re_search_stack_None)
  then show "add_stack e stack
            = Inl (HTTPException 500 ''500: Failed to extract stack ID from output'' [])"
    using assms
    by (simp add: add_stack_def add_stack_body_def HTTP_500_INTERNAL_SERVER_ERROR_def str_nat_500)
qed

lemma no_token_before_42:
  "\<forall>j<length ''Created ''. \<not> token_at (''Created stack_42 ok'' @ [nl]) j"
  by (simp add: token_at_def All_less_Suc)

lemma no_token_done: "\<forall>i<length (''done'' @ [nl]). \<not> token_at (''done'' @ [nl]) i"
  by (simp add: token_at_def)

theorem add_stack_extracts_id_witness:
  "add_stack \<lparr>INIT_SCRIPT = ''/opt/lightstack/init.sh'',
              subprocess = (\<lambda>argv inp. Exited 0 (''Created stack_42 ok'' @ [nl]) [])\<rparr>
     \<lparr>phoenixd_domain = ''pay.example.com'', lnbits_domain = ''wallet.example.com'',
      use_real_certs = False, use_postgres = False, email = None\<rparr>
   = Inr \<lparr>resp_id = ''42'', resp_phoenixd_domain = ''pay.example.com'',
          resp_lnbits_domain = ''wallet.example.com''\<rparr>
 \<and> add_stack \<lparr>INIT_SCRIPT = ''/opt/lightstack/init.sh'',
              subprocess = (\<lambda>argv inp. Exited 0 (''done'' @ [nl]) [])\<rparr>
     \<lparr>phoenixd_domain = ''pay.example.com'', lnbits_domain = ''wallet.example.com'',
      use_real_certs = False, use_postgres = False, email = None\<rparr>
   = Inl (HTTPException 500 ''500: Failed to extract stack ID from output'' [])"
  using add_stack_extracts_id [where e = "\<lparr>INIT_SCRIPT = ''/opt/lightstack/init.sh'',
              subprocess = (\<lambda>argv inp. Exited 0 (''Created stack_42 ok'' @ [nl]) [])\<rparr>"
      and out = "''Created stack_42 ok'' @ [nl]" and err = "[]"
      and pre = "''Created ''" and ds = "''42''" and post = "'' ok'' @ [nl]"
      and stack = "\<lparr>phoenixd_domain = ''pay.example.com'', lnbits_domain = ''wallet.example.com'',
      use_real_certs = False, use_postgres = False, email = None\<rparr>"]
    add_stack_extracts_id [where e = "\<lparr>INIT_SCRIPT = ''/opt/lightstack/init.sh'',
              subprocess = (\<lambda>argv inp. Exited 0 (''done'' @ [nl]) [])\<rparr>"
      and out = "''done'' @ [nl]" and err = "[]"
      and stack = "\<lparr>phoenixd_domain = ''pay.example.com'', lnbits_domain = ''wallet.example.com'',
      use_real_certs = False, use_postgres = False, email = None\<rparr>"]
    no_token_before_42 no_token_done
  by (simp add: is_digit_def)

text \<open>
  Claim C2. When the provisioner exits with a code other than 0, each of the three
  operations fails with an internal error (status 500) whose detail ends with the
  captured stderr, unchanged: \<open>get_stacks\<close> puts \<^verbatim>\<open>Failed to list stacks: \<close> before it;
  \<open>add_stack\<close> and \<open>remove_stack\<close> put their own prefix before it and then, in the final
  handler, the rendering of the status.
\<close>

theorem nonzero_exit_carries_stderr:
  assumes "returncode \<noteq> 0"
  shows "(subprocess e [INIT_SCRIPT e, ''list''] None = Exited returncode out err \<longrightarrow>
            get_stacks e = Inl (HTTPException 500 (''Failed to list stacks: '' @ err) []))
       \<and> (subprocess e [INIT_SCRIPT e, ''add''] (Some (answers stack))
              = Exited returncode out err \<longrightarrow>
            add_stack e stack
              = Inl (HTTPException 500 (''500: Failed to add stack: '' @ err) []))
       \<and> (subprocess e [INIT_SCRIPT e, ''del''] (Some (stack_id @ [nl] @ ''y'' @ [nl]))
              = Exited returncode out err \<longrightarrow>
            remove_stack e stack_id
              = Inl (HTTPException 500 (''500: Failed to remove stack: '' @ err) []))"
  using assms
  by (simp add: get_stacks_def add_stack_def add_stack_body_def remove_stack_def
      remove_stack_body_def HTTP_500_INTERNAL_SERVER_ERROR_def str_nat_500)

theorem nonzero_exit_carries_stderr_witness:
  "get_stacks \<lparr>INIT_SCRIPT = ''/opt/lightstack/init.sh'',
               subprocess = (\<lambda>argv inp. Exited 1 [] ''certificate issuance failed'')\<rparr>
     = Inl (HTTPException 500 ''Failed to list stacks: certificate issuance failed'' [])
   \<and> add_stack \<lparr>INIT_SCRIPT = ''/opt/lightstack/init.sh'',
                subprocess = (\<lambda>argv inp. Exited 1 [] ''certificate issuance failed'')\<rparr>
       \<lparr>phoenixd_domain = ''pay.example.com'', lnbits_domain = ''wallet.example.com'',
        use_real_certs = True, use_postgres = False, email = Some ''ops@example.com''\<rparr>
     = Inl (HTTPException 500 ''500: Failed to add stack: certificate issuance failed'' [])
   \<and> remove_stack \<lparr>INIT_SCRIPT = ''/opt/lightstack/init.sh'',
                   subprocess = (\<lambda>argv inp. Exited 1 [] ''certificate issuance failed'')\<rparr> ''7''
     = Inl (HTTPException 500 ''500: Failed to remove stack: certificate issuance failed'' [])"
  using nonzero_exit_carries_stderr [where returncode = 1
      and e = "\<lparr>INIT_SCRIPT = ''/opt/lightstack/init.sh'',
               subprocess = (\<lambda>argv inp. Exited 1 [] ''certificate issuance failed'')\<rparr>"
      and out = "[]" and err = "''certificate issuance failed''" and stack_id = "''7''"
      and stack = "\<lparr>phoenixd_domain = ''pay.example.com'', lnbits_domain = ''wallet.example.com'',
        use_real_certs = True, use_postgres = False, email = Some ''ops@example.com''\<rparr>"]
  by simp

text \<open>
  Claim C3. When the provisioner run by \<open>get_stacks\<close> exits with code 0 and every line of
  its stdout is empty or holds exactly three tokens, the handler returns one record for
  each line that is not empty, in the order of the lines, and the three fields of a
  record are the three tokens of its line. Empty lines are skipped.
\<close>

theorem get_stacks_well_formed:
  assumes "subprocess e [INIT_SCRIPT e, ''list''] None = Exited 0 out err"
    and "\<forall>l\<in>set (split_nl out). l = [] \<or> length (py_split l) = 3"
  shows "get_stacks e =
           Inr (map (\<lambda>l. \<lparr>resp_id = py_split l ! 0, resp_phoenixd_domain = py_split l ! 1,
                           resp_lnbits_domain = py_split l ! 2\<rparr>)
                  (filter (\<lambda>l. l \<noteq> []) (split_nl out)))"
proof -
  have wf: "well_formed_listing out" using assms(2) by (simp add: well_formed_listing_def)
  then have "well_formed_listing (py_strip out)" by (rule well_formed_strip)
  then have "stacks_loop [] (split_nl (py_strip out)) =
     Inr (map (\<lambda>ts. \<lparr>resp_id = ts ! 0, resp_phoenixd_domain = ts ! 1,
                           resp_lnbits_domain = ts ! 2\<rparr>) (token_lines (py_strip out)))"
    using stacks_loop_well_formed [of "split_nl (py_strip out)" "[]"]
    by (simp add: well_formed_listing_def token_lines_def)
  also have "token_lines (py_strip out) = map py_split (filter (\<lambda>l. l \<noteq> []) (split_nl out))"
    using well_formed_filter [OF wf] by (simp add: token_lines_strip)
  finally show ?thesis using assms(1) by (simp add: get_stacks_def comp_def)
qed

theorem get_stacks_well_formed_witness:
  "get_stacks \<lparr>INIT_SCRIPT = ''/opt/lightstack/init.sh'',
      subprocess = (\<lambda>argv inp.
        Exited 0 (''7 pay.example.com wallet.example.com'' @ [nl, nl] @ ''8 p.example.org w.example.org'' @ [nl]) [])\<rparr>
   = Inr [\<lparr>resp_id = ''7'', resp_phoenixd_domain = ''pay.example.com'',
           resp_lnbits_domain = ''wallet.example.com''\<rparr>,
          \<lparr>resp_id = ''8'', resp_phoenixd_domain = ''p.example.org'',
           resp_lnbits_domain = ''w.example.org''\<rparr>]"
  using get_stacks_well_formed [where e = "\<lparr>INIT_SCRIPT = ''/opt/lightstack/init.sh'',
      subprocess = (\<lambda>argv inp.
        Exited 0 (''7 pay.example.com wallet.example.com'' @ [nl, nl] @ ''8 p.example.org w.example.org'' @ [nl]) [])\<rparr>"
      and out = "''7 pay.example.com wallet.example.com'' @ [nl, nl] @ ''8 p.example.org w.example.org'' @ [nl]"
      and err = "[]"]
  by (simp add: is_space_def)

text \<open>
  Claim C4, as the code has it. For every creation request whose two domains hold no
  newline, and whose rendered email holds none when real certificates are asked for,
  the text written to the provisioner's stdin is exactly six lines: payment domain,
  wallet domain, \<^verbatim>\<open>y\<close> or \<^verbatim>\<open>n\<close> for real certificates, the email, \<^verbatim>\<open>y\<close> or \<^verbatim>\<open>n\<close> for the
  external database, and a final \<^verbatim>\<open>y\<close>. The fourth line is empty whenever
  \<open>use_real_certs\<close> is false, whatever the email. The handler checks none of the fields:
  a newline inside a field adds a line and shifts the ones after it.
\<close>

theorem answers_six_lines:
  assumes "nl \<notin> set (phoenixd_domain s)" and "nl \<notin> set (lnbits_domain s)"
    and "use_real_certs s \<longrightarrow> nl \<notin> set (format_opt (email s))"
  shows "stdin_lines (answers s) =
           [phoenixd_domain s, lnbits_domain s,
            if use_real_certs s then ''y'' else ''n'',
            if use_real_certs s then format_opt (email s) else [],
            if use_postgres s then ''y'' else ''n'',
            ''y'']
       \<and> length (stdin_lines (answers s)) = 6
       \<and> (\<not> use_real_certs s \<longrightarrow> stdin_lines (answers s) ! 3 = [])"
  using stdin_lines_answers [OF assms] by simp

theorem answers_six_lines_witness:
  "stdin_lines (answers \<lparr>phoenixd_domain = ''pay.example.com'',
       lnbits_domain = ''wallet.example.com'', use_real_certs = False, use_postgres = True,
       email = Some ''ops@example.com''\<rparr>)
     = [''pay.example.com'', ''wallet.example.com'', ''n'', [], ''y'', ''y'']"
  using answers_six_lines [of "\<lparr>phoenixd_domain = ''pay.example.com'',
       lnbits_domain = ''wallet.example.com'', use_real_certs = False, use_postgres = True,
       email = Some ''ops@example.com''\<rparr>"]
  by simp

text \<open>
  The claim as stated, for every request, fails: a payment domain with a newline in it
  gives seven lines, and the fourth is not empty although \<open>use_real_certs\<close> is false.
\<close>

theorem answers_six_lines_counterexample:
  "stdin_lines (answers \<lparr>phoenixd_domain = ''a'' @ [nl] @ ''b'', lnbits_domain = ''w'',
       use_real_certs = False, use_postgres = False, email = None\<rparr>)
     = [''a'', ''b'', ''w'', ''n'', [], ''n'', ''y'']
   \<and> length (stdin_lines (answers \<lparr>phoenixd_domain = ''a'' @ [nl] @ ''b'', lnbits_domain = ''w'',
       use_real_certs = False, use_postgres = False, email = None\<rparr>)) \<noteq> 6
   \<and> stdin_lines (answers \<lparr>phoenixd_domain = ''a'' @ [nl] @ ''b'', lnbits_domain = ''w'',
       use_real_certs = False, use_postgres = False, email = None\<rparr>) ! 3 \<noteq> []"
  by (simp add: stdin_lines_def answers_def)

text \<open>
  Claim C5. For each operation, a provisioner that cannot be started and a provisioner
  that exits with a code other than 0 give the caller different failures. In
  \<open>get_stacks\<close> the \<^verbatim>\<open>OSError\<close> is not caught and leaves the handler as it is, while the
  exit code gives the \<^verbatim>\<open>HTTPException\<close>. In \<open>add_stack\<close> and \<open>remove_stack\<close> both leave as
  an internal error of status 500, and the details differ: the rendering of the
  \<^verbatim>\<open>OSError\<close> on one side, the failure message with the stderr on the other.
\<close>

theorem start_failure_distinguishable:
  assumes "returncode \<noteq> 0"
  shows "(subprocess e1 [INIT_SCRIPT e1, ''list''] None = StartFailure n m
          \<and> subprocess e2 [INIT_SCRIPT e2, ''list''] None = Exited returncode out err \<longrightarrow>
            get_stacks e1 = Inl (OSError n m)
          \<and> get_stacks e2 = Inl (HTTPException 500 (''Failed to list stacks: '' @ err) [])
          \<and> get_stacks e1 \<noteq> get_stacks e2)
       \<and> (subprocess e1 [INIT_SCRIPT e1, ''add''] (Some (answers stack)) = StartFailure n m
          \<and> subprocess e2 [INIT_SCRIPT e2, ''add''] (Some (answers stack))
               = Exited returncode out err \<longrightarrow>
            add_stack e1 stack
              = Inl (HTTPException 500 (''[Errno '' @ str_nat n @ ''] '' @ m) [])
          \<and> add_stack e2 stack
              = Inl (HTTPException 500 (''500: Failed to add stack: '' @ err) [])
          \<and> add_stack e1 stack \<noteq> add_stack e2 stack)
       \<and> (subprocess e1 [INIT_SCRIPT e1, ''del''] (Some (stack_id @ [nl] @ ''y'' @ [nl]))
               = StartFailure n m
          \<and> subprocess e2 [INIT_SCRIPT e2, ''del''] (Some (stack_id @ [nl] @ ''y'' @ [nl]))
               = Exited returncode out err \<longrightarrow>
            remove_stack e1 stack_id
              = Inl (HTTPException 500 (''[Errno '' @ str_nat n @ ''] '' @ m) [])
          \<and> remove_stack e2 stack_id
              = Inl (HTTPException 500 (''500: Failed to remove stack: '' @ err) [])
          \<and> remove_stack e1 stack_id \<noteq> remove_stack e2 stack_id)"
  using assms
  by (simp add: get_stacks_def add_stack_def add_stack_body_def remove_stack_def
      remove_stack_body_def HTTP_500_INTERNAL_SERVER_ERROR_def str_nat_500)

theorem start_failure_distinguishable_witness:
  "get_stacks \<lparr>INIT_SCRIPT = ''/opt/lightstack/init.sh'',
      subprocess = (\<lambda>argv inp. StartFailure 2 ''No such file or directory'')\<rparr>
     \<noteq> get_stacks \<lparr>INIT_SCRIPT = ''/opt/lightstack/init.sh'',
      subprocess = (\<lambda>argv inp. Exited 1 [] ''boom'')\<rparr>
   \<and> add_stack \<lparr>INIT_SCRIPT = ''/opt/lightstack/init.sh'',
      subprocess = (\<lambda>argv inp. StartFailure 2 ''No such file or directory'')\<rparr>
       \<lparr>phoenixd_domain = ''pay.example.com'', lnbits_domain = ''wallet.example.com'',
        use_real_certs = False, use_postgres = False, email = None\<rparr>
     = Inl (HTTPException 500 ''[Errno 2] No such file or directory'' [])
   \<and> add_stack \<lparr>INIT_SCRIPT = ''/opt/lightstack/init.sh'',
      subprocess = (\<lambda>argv inp. Exited 1 [] ''boom'')\<rparr>
       \<lparr>phoenixd_domain = ''pay.example.com'', lnbits_domain = ''wallet.example.com'',
        use_real_certs = False, use_postgres = False, email = None\<rparr>
     = Inl (HTTPException 500 ''500: Failed to add stack: boom'' [])
   \<and> remove_stack \<lparr>INIT_SCRIPT = ''/opt/lightstack/init.sh'',
      subprocess = (\<lambda>argv inp. StartFailure 2 ''No such file or directory'')\<rparr> ''7''
     \<noteq> remove_stack \<lparr>INIT_SCRIPT = ''/opt/lightstack/init.sh'',
      subprocess = (\<lambda>argv inp. Exited 1 [] ''boom'')\<rparr> ''7''"
  using start_failure_distinguishable [where returncode = 1
      and ?e1.0 = "\<lparr>INIT_SCRIPT = ''/opt/lightstack/init.sh'',
        subprocess = (\<lambda>argv inp. StartFailure 2 ''No such file or directory'')\<rparr>"
      and ?e2.0 = "\<lparr>INIT_SCRIPT = ''/opt/lightstack/init.sh'',
        subprocess = (\<lambda>argv inp. Exited 1 [] ''boom'')\<rparr>"
      and n = 2 and m = "''No such file or directory''" and out = "[]" and err = "''boom''"
      and stack_id = "''7''"
      and stack = "\<lparr>phoenixd_domain = ''pay.example.com'', lnbits_domain = ''wallet.example.com'',
        use_real_certs = False, use_postgres = False, email = None\<rparr>"]
  by (simp add: str_nat.simps digits_def)

text \<open>
  Claim C6, as the code has it. When the provisioner run by \<open>get_stacks\<close> exits with code
  0 and its stdout has a line that holds at least one token but not exactly three, or a
  line of whitespace only (not empty) between two parts of the output that each hold a
  character other than whitespace, the handler raises the \<^verbatim>\<open>ValueError\<close> of the unpacking,
  which nothing catches: no list of stacks is returned. Whitespace before the first and
  after the last token of the output, lines of whitespace only included, is removed by
  \<^verbatim>\<open>strip()\<close> and dropped without error: when the output is a listing whose every line
  is empty or holds exactly three tokens, with whitespace put before and after it, the
  handler returns the records of the lines of that listing.
\<close>

theorem get_stacks_malformed:
  assumes "subprocess e [INIT_SCRIPT e, ''list''] None = Exited 0 out err"
  shows "(l \<in> set (split_nl out) \<and> py_split l \<noteq> [] \<and> length (py_split l) \<noteq> 3 \<longrightarrow>
            (\<exists>n. n \<noteq> 3 \<and> get_stacks e = Inl (ValueError (unpack_message n))))
       \<and> (out = a @ [nl] @ w @ [nl] @ b \<and> w \<noteq> [] \<and> nl \<notin> set w \<and> (\<forall>c\<in>set w. is_space c)
            \<and> (\<exists>c\<in>set a. \<not> is_space c) \<and> (\<exists>c\<in>set b. \<not> is_space c) \<longrightarrow>
            (\<exists>n. n \<noteq> 3 \<and> get_stacks e = Inl (ValueError (unpack_message n))))
       \<and> (out = lead @ listing @ trail
            \<and> (\<forall>c\<in>set lead. is_space c) \<and> (\<forall>c\<in>set trail. is_space c)
            \<and> (\<forall>l\<in>set (split_nl listing). l = [] \<or> length (py_split l) = 3) \<longrightarrow>
            get_stacks e =
              Inr (map (\<lambda>l. \<lparr>resp_id = py_split l ! 0, resp_phoenixd_domain = py_split l ! 1,
                              resp_lnbits_domain = py_split l ! 2\<rparr>)
                     (filter (\<lambda>l. l \<noteq> []) (split_nl listing))))"
proof (intro conjI impI)
  assume h: "l \<in> set (split_nl out) \<and> py_split l \<noteq> [] \<and> length (py_split l) \<noteq> 3"
  then have "py_split l \<in> set (token_lines out)" by (simp add: token_lines_def)
  then have "py_split l \<in> set (token_lines (py_strip out))" by (simp add: token_lines_strip)
  then obtain l' where "l' \<in> set (split_nl (py_strip out))" and "py_split l' = py_split l"
    by (auto simp: token_lines_def)
  then have "\<exists>l\<in>set (split_nl (py_strip out)). l \<noteq> [] \<and> length (py_split l) \<noteq> 3"
    using h by (intro bexI [of _ l']) auto
  then show "\<exists>n. n \<noteq> 3 \<and> get_stacks e = Inl (ValueError (unpack_message n))"
    using stacks_loop_malformed [of "split_nl (py_strip out)" "[]"] assms
    by (simp add: get_stacks_def)
next
  assume h: "out = a @ [nl] @ w @ [nl] @ b \<and> w \<noteq> [] \<and> nl \<notin> set w \<and> (\<forall>c\<in>set w. is_space c)
            \<and> (\<exists>c\<in>set a. \<not> is_space c) \<and> (\<exists>c\<in>set b. \<not> is_space c)"
  then have "py_strip out
      = dropWhile is_space a @ ([nl] @ w @ [nl]) @ rev (dropWhile is_space (rev b))"
    using py_strip_middle [of a b "[nl] @ w @ [nl]"] by simp
  then have "split_nl (py_strip out)
      = split_nl (dropWhile is_space a) @ w # split_nl (rev (dropWhile is_space (rev b)))"
    using h by (simp add: split_nl_append_nl split_nl_line split_nl_no_nl)
  moreover have "py_split w = []" using h by (simp add: py_split_all_space)
  ultimately have "\<exists>l\<in>set (split_nl (py_strip out)). l \<noteq> [] \<and> length (py_split l) \<noteq> 3"
    using h by (intro bexI [of _ w]) auto
  then show "\<exists>n. n \<noteq> 3 \<and> get_stacks e = Inl (ValueError (unpack_message n))"
    using stacks_loop_malformed [of "split_nl (py_strip out)" "[]"] assms
    by (simp add: get_stacks_def)
next
  assume h: "out = lead @ listing @ trail
            \<and> (\<forall>c\<in>set lead. is_space c) \<and> (\<forall>c\<in>set trail. is_space c)
            \<and> (\<forall>l\<in>set (split_nl listing). l = [] \<or> length (py_split l) = 3)"
  then have "py_strip out = py_strip listing" using py_strip_pad [of lead trail listing] by simp
  moreover have "well_formed_listing listing" using h by (simp add: well_formed_listing_def)
  ultimately show "get_stacks e =
              Inr (map (\<lambda>l. \<lparr>resp_id = py_split l ! 0, resp_phoenixd_domain = py_split l ! 1,
                              resp_lnbits_domain = py_split l ! 2\<rparr>)
                     (filter (\<lambda>l. l \<noteq> []) (split_nl listing)))"
    using assms stacks_loop_strip_well_formed [of listing] by (simp add: get_stacks_def)
qed

theorem get_stacks_malformed_witness:
  "(\<exists>n. n \<noteq> 3 \<and> get_stacks \<lparr>INIT_SCRIPT = ''/opt/lightstack/init.sh'',
      subprocess = (\<lambda>argv inp. Exited 0 (''7 pay.example.com'' @ [nl]) [])\<rparr>
       = Inl (ValueError (unpack_message n)))
 \<and> (\<exists>n. n \<noteq> 3 \<and> get_stacks \<lparr>INIT_SCRIPT = ''/opt/lightstack/init.sh'',
      subprocess = (\<lambda>argv inp. Exited 0 (''7 a b'' @ [nl] @ '' '' @ [nl] @ ''8 c d'') [])\<rparr>
       = Inl (ValueError (unpack_message n)))
 \<and> get_stacks \<lparr>INIT_SCRIPT = ''/opt/lightstack/init.sh'',
      subprocess = (\<lambda>argv inp.
        Exited 0 (('' '' @ [nl]) @ ''7 pay.example.com wallet.example.com'' @ ([nl] @ '' '' @ [nl])) [])\<rparr>
     = Inr [\<lparr>resp_id = ''7'', resp_phoenixd_domain = ''pay.example.com'',
             resp_lnbits_domain = ''wallet.example.com''\<rparr>]"
  using get_stacks_malformed [where e = "\<lparr>INIT_SCRIPT = ''/opt/lightstack/init.sh'',
      subprocess = (\<lambda>argv inp. Exited 0 (''7 pay.example.com'' @ [nl]) [])\<rparr>"
      and out = "''7 pay.example.com'' @ [nl]" and err = "[]" and l = "''7 pay.example.com''"]
    get_stacks_malformed [where e = "\<lparr>INIT_SCRIPT = ''/opt/lightstack/init.sh'',
      subprocess = (\<lambda>argv inp. Exited 0 (''7 a b'' @ [nl] @ '' '' @ [nl] @ ''8 c d'') [])\<rparr>"
      and out = "''7 a b'' @ [nl] @ '' '' @ [nl] @ ''8 c d''" and err = "[]"
      and a = "''7 a b''" and w = "'' ''" and b = "''8 c d''"]
    get_stacks_malformed [where e = "\<lparr>INIT_SCRIPT = ''/opt/lightstack/init.sh'',
      subprocess = (\<lambda>argv inp.
        Exited 0 (('' '' @ [nl]) @ ''7 pay.example.com wallet.example.com'' @ ([nl] @ '' '' @ [nl])) [])\<rparr>"
      and out = "('' '' @ [nl]) @ ''7 pay.example.com wallet.example.com'' @ ([nl] @ '' '' @ [nl])" and err = "[]"
      and lead = "'' '' @ [nl]" and listing = "''7 pay.example.com wallet.example.com''"
      and trail = "[nl] @ '' '' @ [nl]"]
  by (simp add: is_space_def)

text \<open>
  The claim as stated, for every line that is not empty, fails. In the first output the
  first line is one space, in the second output the second line is: the line is not
  empty and holds no token, and the handler returns the stack of the other line.
\<close>

theorem get_stacks_malformed_counterexample:
  "split_nl ('' '' @ [nl] @ ''7 pay.example.com wallet.example.com'' @ [nl]) ! 0 = '' ''
   \<and> split_nl (''7 pay.example.com wallet.example.com'' @ [nl] @ '' '' @ [nl]) ! 1 = '' ''
   \<and> length (py_split '' '') \<noteq> 3
   \<and> get_stacks \<lparr>INIT_SCRIPT = ''/opt/lightstack/init.sh'',
      subprocess = (\<lambda>argv inp.
        Exited 0 ('' '' @ [nl] @ ''7 pay.example.com wallet.example.com'' @ [nl]) [])\<rparr>
     = Inr [\<lparr>resp_id = ''7'', resp_phoenixd_domain = ''pay.example.com'',
             resp_lnbits_domain = ''wallet.example.com''\<rparr>]
   \<and> get_stacks \<lparr>INIT_SCRIPT = ''/opt/lightstack/init.sh'',
      subprocess = (\<lambda>argv inp.
        Exited 0 (''7 pay.example.com wallet.example.com'' @ [nl] @ '' '' @ [nl]) [])\<rparr>
     = Inr [\<lparr>resp_id = ''7'', resp_phoenixd_domain = ''pay.example.com'',
             resp_lnbits_domain = ''wallet.example.com''\<rparr>]"
  by (simp add: get_stacks_def py_strip_def is_space_def)

text \<open>
  Claim C7. Whatever makes \<open>get_current_user\<close> refuse a token (the library cannot decode
  it, the payload has no subject, or the subject is no user), the exception is the same:
  status 401, the detail \<^verbatim>\<open>Could not validate credentials\<close>, the header
  \<^verbatim>\<open>WWW-Authenticate: Bearer\<close>. Two refusals are equal.
\<close>

theorem uniform_rejection:
  assumes "get_current_user lib now1 token1 = Inl x"
    and "get_current_user lib now2 token2 = Inl y"
  shows "x = y \<and> x = HTTPException 401 ''Could not validate credentials''
                       [(''WWW-Authenticate'', ''Bearer'')]"
  using assms
  by (auto simp: get_current_user_def credentials_exception_def HTTP_401_UNAUTHORIZED_def
      split: sum.splits option.splits)

theorem uniform_rejection_witness:
  "get_current_user (model_jwt ''your-secret-key'') 5000 Garbage
     = Inl (HTTPException 401 ''Could not validate credentials''
              [(''WWW-Authenticate'', ''Bearer'')])
   \<and> get_current_user (model_jwt ''your-secret-key'') 5000
        (Signed \<lparr>sub = Some ''nobody'', exp = Some 9000\<rparr> ''your-secret-key'')
     = Inl (HTTPException 401 ''Could not validate credentials''
              [(''WWW-Authenticate'', ''Bearer'')])"
proof -
  have a: "get_current_user (model_jwt ''your-secret-key'') 5000 Garbage
             = Inl credentials_exception"
    by (simp add: get_current_user_def model_jwt_def)
  have b: "get_current_user (model_jwt ''your-secret-key'') 5000
             (Signed \<lparr>sub = Some ''nobody'', exp = Some 9000\<rparr> ''your-secret-key'')
             = Inl credentials_exception"
    by (simp add: get_current_user_def model_jwt_def get_user_def USERS_DB_def)
  show ?thesis using uniform_rejection [OF a b] a b by simp
qed

text \<open>
  Claim C8. For every pair of user name and password that \<open>authenticate_user\<close> accepts,
  the login at time \<open>t0\<close> returns the token that encodes the user's name and the expiry
  \<open>t0 + 30 * 60\<close> seconds. With a library that meets \<open>jwt_contract\<close>, \<open>get_current_user\<close>
  lets that token pass at every time before the expiry and refuses it at every time
  after it.
\<close>

theorem token_expiry_window:
  fixes lib :: "'tok jwt_lib"
  defines "tok t0 user \<equiv>
     jwt_encode lib \<lparr>sub = Some (username user), exp = Some (t0 + 30 * 60)\<rparr>
       (SECRET_KEY lib) ALGORITHM"
  assumes "jwt_contract lib" and "authenticate_user uname pw = Some user"
  shows "login_for_access_token lib t0 uname pw
           = Inr \<lparr>access_token = tok t0 user, token_type = ''bearer''\<rparr>
       \<and> (\<forall>now. now < t0 + 30 * 60 \<longrightarrow> get_current_user lib now (tok t0 user) = Inr user)
       \<and> (\<forall>now. t0 + 30 * 60 < now \<longrightarrow>
             get_current_user lib now (tok t0 user) = Inl credentials_exception)"
proof -
  let ?c = "\<lparr>sub = Some (username user), exp = Some (t0 + 30 * 60)\<rparr>"
  have login: "login_for_access_token lib t0 uname pw
           = Inr \<lparr>access_token = tok t0 user, token_type = ''bearer''\<rparr>"
    using assms(3)
    by (simp add: login_for_access_token_def create_access_token_def tok_def
        ACCESS_TOKEN_EXPIRE_MINUTES_def)
  have user: "get_user (username user) = Some user"
    using assms(3) by (rule authenticate_user_get_user)
  have before: "get_current_user lib now (tok t0 user) = Inr user"
    if "now < t0 + 30 * 60" for now
  proof -
    have "jwt_decode lib (tok t0 user) (SECRET_KEY lib) [ALGORITHM] now = Inr ?c"
      using assms(2) that unfolding jwt_contract_def tok_def by simp
    then show ?thesis using user by (simp add: get_current_user_def)
  qed
  have after: "get_current_user lib now (tok t0 user) = Inl credentials_exception"
    if "t0 + 30 * 60 < now" for now
  proof -
    have "\<exists>err. jwt_decode lib (tok t0 user) (SECRET_KEY lib) [ALGORITHM] now = Inl err"
      using assms(2) that unfolding jwt_contract_def tok_def by simp
    then show ?thesis by (auto simp: get_current_user_def)
  qed
  show ?thesis using login before after by blast
qed

theorem token_expiry_window_witness:
  "jwt_contract (model_jwt ''your-secret-key'')
   \<and> authenticate_user ''admin'' ''adminpassword''
       = Some \<lparr>username = ''admin'', password = ''adminpassword''\<rparr>
   \<and> login_for_access_token (model_jwt ''your-secret-key'') 1000 ''admin'' ''adminpassword''
       = Inr \<lparr>access_token = Signed \<lparr>sub = Some ''admin'', exp = Some 2800\<rparr> ''your-secret-key'',
              token_type = ''bearer''\<rparr>
   \<and> get_current_user (model_jwt ''your-secret-key'') 2799
        (Signed \<lparr>sub = Some ''admin'', exp = Some 2800\<rparr> ''your-secret-key'')
       = Inr \<lparr>username = ''admin'', password = ''adminpassword''\<rparr>
   \<and> get_current_user (model_jwt ''your-secret-key'') 2801
        (Signed \<lparr>sub = Some ''admin'', exp = Some 2800\<rparr> ''your-secret-key'')
       = Inl credentials_exception"
proof -
  have c: "jwt_contract (model_jwt ''your-secret-key'')" by (rule model_jwt_contract)
  have a: "authenticate_user ''admin'' ''adminpassword''
       = Some \<lparr>username = ''admin'', password = ''adminpassword''\<rparr>"
    by (simp add: authenticate_user_def get_user_def verify_password_def USERS_DB_def)
  show ?thesis
    using c a token_expiry_window [OF c a, of 1000]
    by (simp add: model_jwt_def)
qed

text \<open>
  Claim C9, as the code has it. For every creation request with \<open>use_real_certs\<close> true
  and no email, whose two domains hold no newline, the fourth line written to the
  provisioner's stdin is the four characters \<^verbatim>\<open>None\<close>. A newline inside a domain shifts
  the lines, and the fourth is then another one.
\<close>

theorem none_email_line:
  assumes "nl \<notin> set (phoenixd_domain s)" and "nl \<notin> set (lnbits_domain s)"
    and "use_real_certs s" and "email s = None"
  shows "stdin_lines (answers s) ! 3 = ''None''"
  using stdin_lines_answers [of s] assms by simp

theorem none_email_line_witness:
  "stdin_lines (answers \<lparr>phoenixd_domain = ''pay.example.com'',
       lnbits_domain = ''wallet.example.com'', use_real_certs = True, use_postgres = False,
       email = None\<rparr>) ! 3 = ''None''"
  using none_email_line [of "\<lparr>phoenixd_domain = ''pay.example.com'',
       lnbits_domain = ''wallet.example.com'', use_real_certs = True, use_postgres = False,
       email = None\<rparr>"]
  by simp

text \<open>
  The claim as stated, for every such request, fails: with a newline in the payment
  domain the fourth line is the answer \<^verbatim>\<open>y\<close> for the certificates.
\<close>

theorem none_email_line_counterexample:
  "stdin_lines (answers \<lparr>phoenixd_domain = ''pay'' @ [nl] @ ''example.com'',
       lnbits_domain = ''wallet.example.com'', use_real_certs = True, use_postgres = False,
       email = None\<rparr>) ! 3 = ''y''
   \<and> stdin_lines (answers \<lparr>phoenixd_domain = ''pay'' @ [nl] @ ''example.com'',
       lnbits_domain = ''wallet.example.com'', use_real_certs = True, use_postgres = False,
       email = None\<rparr>) ! 3 \<noteq> ''None''"
  by (simp add: stdin_lines_def answers_def)

text \<open>
  Claim C10. In \<open>add_stack\<close> and \<open>remove_stack\<close>, whatever the body raises (the failure to
  start the provisioner, the exit code other than 0, the missing id) is caught by the
  final handler and raised anew as an internal error of status 500 whose detail is the
  rendering \<open>str_exn\<close> of what was caught. What the caller gets is never the exception
  the body raised.
\<close>

theorem catch_all_wraps:
  "(add_stack_body e stack = Inl ex \<longrightarrow>
      add_stack e stack = Inl (HTTPException 500 (str_exn ex) [])
      \<and> add_stack e stack \<noteq> Inl ex)
 \<and> (remove_stack_body e stack_id = Inl ex' \<longrightarrow>
      remove_stack e stack_id = Inl (HTTPException 500 (str_exn ex') [])
      \<and> remove_stack e stack_id \<noteq> Inl ex')"
  using add_stack_body_cases [of e stack ex] remove_stack_body_cases [of e stack_id ex']
    str_exn_http_neq
  by (auto simp: add_stack_def remove_stack_def HTTP_500_INTERNAL_SERVER_ERROR_def
      simp del: str_exn.simps)

theorem catch_all_wraps_witness:
  "add_stack_body \<lparr>INIT_SCRIPT = ''/opt/lightstack/init.sh'',
      subprocess = (\<lambda>argv inp. Exited 1 [] ''boom'')\<rparr>
       \<lparr>phoenixd_domain = ''pay.example.com'', lnbits_domain = ''wallet.example.com'',
        use_real_certs = False, use_postgres = False, email = None\<rparr>
     = Inl (HTTPException 500 ''Failed to add stack: boom'' [])
   \<and> add_stack \<lparr>INIT_SCRIPT = ''/opt/lightstack/init.sh'',
      subprocess = (\<lambda>argv inp. Exited 1 [] ''boom'')\<rparr>
       \<lparr>phoenixd_domain = ''pay.example.com'', lnbits_domain = ''wallet.example.com'',
        use_real_certs = False, use_postgres = False, email = None\<rparr>
     = Inl (HTTPException 500 ''500: Failed to add stack: boom'' [])
   \<and> remove_stack_body \<lparr>INIT_SCRIPT = ''/opt/lightstack/init.sh'',
      subprocess = (\<lambda>argv inp. Exited 1 [] ''boom'')\<rparr> ''7''
     = Inl (HTTPException 500 ''Failed to remove stack: boom'' [])
   \<and> remove_stack \<lparr>INIT_SCRIPT = ''/opt/lightstack/init.sh'',
      subprocess = (\<lambda>argv inp. Exited 1 [] ''boom'')\<rparr> ''7''
     = Inl (HTTPException 500 ''500: Failed to remove stack: boom'' [])"
proof -
  have a: "add_stack_body \<lparr>INIT_SCRIPT = ''/opt/lightstack/init.sh'',
      subprocess = (\<lambda>argv inp. Exited 1 [] ''boom'')\<rparr>
       \<lparr>phoenixd_domain = ''pay.example.com'', lnbits_domain = ''wallet.example.com'',
        use_real_certs = False, use_postgres = False, email = None\<rparr>
     = Inl (HTTPException 500 ''Failed to add stack: boom'' [])"
    by (simp add: add_stack_body_def HTTP_500_INTERNAL_SERVER_ERROR_def)
  have r: "remove_stack_body \<lparr>INIT_SCRIPT = ''/opt/lightstack/init.sh'',
      subprocess = (\<lambda>argv inp. Exited 1 [] ''boom'')\<rparr> ''7''
     = Inl (HTTPException 500 ''Failed to remove stack: boom'' [])"
    by (simp add: remove_stack_body_def HTTP_500_INTERNAL_SERVER_ERROR_def)
  show ?thesis
    using a r catch_all_wraps [where e = "\<lparr>INIT_SCRIPT = ''/opt/lightstack/init.sh'',
        subprocess = (\<lambda>argv inp. Exited 1 [] ''boom'')\<rparr>"
      and stack = "\<lparr>phoenixd_domain = ''pay.example.com'', lnbits_domain = ''wallet.example.com'',
        use_real_certs = False, use_postgres = False, email = None\<rparr>"
      and stack_id = "''7''"
      and ex = "HTTPException 500 ''Failed to add stack: boom'' []"
      and ex' = "HTTPException 500 ''Failed to remove stack: boom'' []"]
    by (simp add: str_nat_500)
qed

end
